theory Spec2Isabelle
  imports Complex_Main
begin

section \<open>Geometry engine of the collision-box viewer\<close>

text \<open>
  The Python sources compute with numpy arrays of shape \<open>(n, 2)\<close> and with Qt points.
  A point is a pair of coordinates and a polygon is the list of its vertices. Numbers are
  modelled as mathematical reals: rounding of binary floating point is not part of the model.
\<close>

type_synonym point = "real \<times> real"

definition padd :: "point \<Rightarrow> point \<Rightarrow> point" where
  "padd p q = (fst p + fst q, snd p + snd q)"

definition psub :: "point \<Rightarrow> point \<Rightarrow> point" where
  "psub p q = (fst p - fst q, snd p - snd q)"

definition pscale :: "point \<Rightarrow> real \<Rightarrow> point" where
  "pscale p c = (fst p * c, snd p * c)"

definition pdiv :: "point \<Rightarrow> real \<Rightarrow> point" where
  "pdiv p c = (fst p / c, snd p / c)"

text \<open>\<open>np.linalg.norm\<close> of a vector with two components.\<close>

definition linalg_norm :: "point \<Rightarrow> real" where
  "linalg_norm p = sqrt (fst p * fst p + snd p * snd p)"

text \<open>\<open>np.mean(vertices, axis=0)\<close>.\<close>

definition mean_axis0 :: "point list \<Rightarrow> point" where
  "mean_axis0 vs = (sum_list (map fst vs) / real (length vs), sum_list (map snd vs) / real (length vs))"

text \<open>\<open>math.radians\<close>, and the product \<open>(v - center) @ rotation_matrix.T + center\<close>
  with the matrix \<open>[[cos_r, -sin_r], [sin_r, cos_r]]\<close>.\<close>

definition radians :: "real \<Rightarrow> real" where
  "radians deg = deg * pi / 180"

definition rotate_about :: "point \<Rightarrow> real \<Rightarrow> point \<Rightarrow> point" where
  "rotate_about center rotation v =
     (let rad = radians rotation;
          cos_r = cos rad; sin_r = sin rad;
          vx = fst v - fst center;
          vy = snd v - snd center
      in (vx * cos_r - vy * sin_r + fst center, vx * sin_r + vy * cos_r + snd center))"

subsection \<open>Obstacle records and errors\<close>

text \<open>
  An obstacle is a Python dictionary. Every key is optional in the dictionary itself: a
  key read with \<open>obstacle[k]\<close> raises \<open>KeyError\<close> when it is absent, a key read with
  \<open>obstacle.get(k, default)\<close> falls back to the default. The record has one optional
  field per key; \<open>directional_expansion\<close> is itself a dictionary from the direction
  names to distances.
\<close>

datatype error = KeyError string | ValueError string

record obstacle =
  ob_type :: "string option"
  ob_x :: "real option"
  ob_y :: "real option"
  ob_width :: "real option"
  ob_height :: "real option"
  ob_rotation :: "real option"
  ob_can_rotate :: "bool option"
  ob_points :: "point list option"
  ob_expansion_distance :: "real option"
  ob_expansion_method :: "string option"
  ob_use_directional_expansion :: "bool option"
  ob_directional_expansion :: "(string \<rightharpoonup> real) option"
  ob_force_convex_hull :: "bool option"

text \<open>\<open>d.get(k, default)\<close> on an optional field.\<close>

definition get_or :: "'a option \<Rightarrow> 'a \<Rightarrow> 'a" where
  "get_or v dflt = (case v of None \<Rightarrow> dflt | Some a \<Rightarrow> a)"

text \<open>The four reads \<open>obstacle['x']\<close>, \<open>obstacle['y']\<close>, \<open>obstacle['width']\<close>,
  \<open>obstacle['height']\<close>, in the order every routine makes them.\<close>

definition placement :: "obstacle \<Rightarrow> error + (real \<times> real \<times> real \<times> real)" where
  "placement obstacle =
     (case ob_x obstacle of None \<Rightarrow> Inl (KeyError ''x'') | Some x \<Rightarrow>
      case ob_y obstacle of None \<Rightarrow> Inl (KeyError ''y'') | Some y \<Rightarrow>
      case ob_width obstacle of None \<Rightarrow> Inl (KeyError ''width'') | Some width \<Rightarrow>
      case ob_height obstacle of None \<Rightarrow> Inl (KeyError ''height'') | Some height \<Rightarrow>
      Inr (x, y, width, height))"

text \<open>\<open>directional_exp.get(k, 0)\<close> after
  \<open>directional_exp = obstacle.get('directional_expansion', {})\<close>.\<close>

definition directional_get :: "obstacle \<Rightarrow> string \<Rightarrow> real" where
  "directional_get obstacle k =
     (case ob_directional_expansion obstacle of
        None \<Rightarrow> 0
      | Some directional_exp \<Rightarrow> get_or (directional_exp k) 0)"

text \<open>The expander object: \<open>self.d_exp\<close> and \<open>self.force_convex_hull\<close>.\<close>

record expander =
  d_exp :: real
  force_convex_hull :: bool

definition METHOD_PRESERVE_SHAPE :: string where
  "METHOD_PRESERVE_SHAPE = ''preserve_shape''"

definition METHOD_CONVEX :: string where
  "METHOD_CONVEX = ''convex''"

definition METHOD_GENERALIZED :: string where
  "METHOD_GENERALIZED = ''generalized''"

text \<open>What \<open>expand_obstacle\<close> returns besides \<open>None\<close>: a list of points, or the triple
  of edges, arc centers and arc radius.\<close>

datatype boundary =
  Polygon "point list"
| Arcs "(point \<times> point) list" "point list" real

subsection \<open>Winding order (collisionBoxExpansion.py)\<close>

text \<open>
  \<open>_is_counter_clockwise\<close>: the loop \<open>for i in range(n)\<close> adds
  \<open>x1 * y2 - x2 * y1\<close> for the vertex \<open>i\<close> and its cyclic successor to
  \<open>signed_area\<close>, starting at \<open>0.0\<close>; the answer is \<open>signed_area > 0\<close>.
  The sum is taken over the reals. It is what the source computes where every product and
  partial sum is exactly representable in the array's number type, as at the small integer
  coordinates of the statements below; overflow of integer arrays and rounding of doubles
  are outside the model.
\<close>

definition shoelace_term :: "point list \<Rightarrow> nat \<Rightarrow> real" where
  "shoelace_term vertices i =
     (let n = length vertices;
          (x1, y1) = vertices ! i;
          (x2, y2) = vertices ! ((i + 1) mod n)
      in x1 * y2 - x2 * y1)"

definition signed_area :: "point list \<Rightarrow> real" where
  "signed_area vertices =
     fold (\<lambda>i acc. acc + shoelace_term vertices i) [0..<length vertices] 0"

definition is_counter_clockwise :: "point list \<Rightarrow> bool" where
  "is_counter_clockwise vertices \<longleftrightarrow> signed_area vertices > 0"

text \<open>\<open>_ensure_counter_clockwise\<close>: \<open>vertices[::-1]\<close> unless the test above holds.\<close>

definition ensure_counter_clockwise :: "point list \<Rightarrow> point list" where
  "ensure_counter_clockwise vertices =
     (if \<not> is_counter_clockwise vertices then rev vertices else vertices)"

subsection \<open>Vertex extraction (collisionBoxExpansion.py)\<close>

text \<open>\<open>_regular_polygon_vertices\<close>: \<open>np.linspace(-pi/2, 2*pi - pi/2, num_sides,
  endpoint=False)\<close> is the start plus \<open>i\<close> steps of \<open>2*pi / num_sides\<close>.\<close>

definition regular_polygon_vertices :: "real \<Rightarrow> real \<Rightarrow> real \<Rightarrow> nat \<Rightarrow> point list" where
  "regular_polygon_vertices cx cy radius num_sides =
     map (\<lambda>i. let angle = - pi / 2 + real i * ((2 * pi - pi / 2 - (- pi / 2)) / real num_sides)
              in (cx + radius * cos angle, cy + radius * sin angle))
         [0..<num_sides]"

definition rectangle_vertices :: "real \<Rightarrow> real \<Rightarrow> point list" where
  "rectangle_vertices width height = [(0, 0), (width, 0), (width, height), (0, height)]"

definition triangle_vertices :: "real \<Rightarrow> real \<Rightarrow> point list" where
  "triangle_vertices width height = [(width / 2, 0), (width, height), (0, height)]"

text \<open>
  \<open>_obstacle_to_vertices\<close>. The final \<open>else\<close> of the source (any other type, and
  \<open>custom_polygon\<close> without the key \<open>points\<close>) builds the rectangle. A custom polygon
  with an empty point list gives numpy an array of shape \<open>(0,)\<close>, which neither the matrix
  product of the rotation nor the translation by \<open>[x, y]\<close> accepts: numpy raises
  \<open>ValueError\<close>.
\<close>

definition obstacle_to_vertices :: "obstacle \<Rightarrow> error + point list" where
  "obstacle_to_vertices obstacle =
     (let obstacle_type = get_or (ob_type obstacle) ''rectangle'' in
      case placement obstacle of
        Inl e \<Rightarrow> Inl e
      | Inr (x, y, width, height) \<Rightarrow>
          let rotation = get_or (ob_rotation obstacle) 0;
              local_vertices =
                (if obstacle_type = ''rectangle'' then rectangle_vertices width height
                 else if obstacle_type = ''triangle'' then triangle_vertices width height
                 else if obstacle_type = ''pentagon'' then
                   regular_polygon_vertices (width / 2) (height / 2) (min width height / 2) 5
                 else if obstacle_type = ''hexagon'' then
                   regular_polygon_vertices (width / 2) (height / 2) (min width height / 2) 6
                 else if obstacle_type = ''custom_polygon'' \<and> ob_points obstacle \<noteq> None then
                   the (ob_points obstacle)
                 else rectangle_vertices width height);
              can_rotate = get_or (ob_can_rotate obstacle) True
          in if local_vertices = [] then Inl (ValueError ''operands could not be broadcast together'')
             else
               let rotated =
                     (if rotation \<noteq> 0 \<and> can_rotate then
                        let center = (if obstacle_type = ''custom_polygon''
                                      then mean_axis0 local_vertices
                                      else (width / 2, height / 2))
                        in map (rotate_about center rotation) local_vertices
                      else local_vertices)
               in Inr (map (\<lambda>v. padd v (x, y)) rotated))"

subsection \<open>Convex hull preprocessing\<close>

text \<open>
  \<open>scipy.spatial.ConvexHull\<close> is a library routine and stays a parameter \<open>ConvexHull\<close> of the
  model: applied to the vertices it gives the indices \<open>hull.vertices\<close>, or \<open>None\<close> when
  the library raises. \<open>_compute_convex_hull\<close> catches every exception (also an index out
  of range) and then returns the vertices it was given.
\<close>

type_synonym hull_fn = "point list \<Rightarrow> nat list option"

definition compute_convex_hull :: "hull_fn \<Rightarrow> point list \<Rightarrow> point list" where
  "compute_convex_hull ConvexHull vertices =
     (if length vertices < 3 then vertices
      else case ConvexHull vertices of
             None \<Rightarrow> vertices
           | Some hull_indices \<Rightarrow>
               if list_all (\<lambda>i. i < length vertices) hull_indices
               then ensure_counter_clockwise (map (\<lambda>i. vertices ! i) hull_indices)
               else vertices)"

subsection \<open>The three offsetting methods\<close>

definition tiny :: real where
  "tiny = 1 / 10 ^ 10"

text \<open>\<open>_line_intersection\<close>.\<close>

definition line_intersection :: "point \<Rightarrow> point \<Rightarrow> point \<Rightarrow> point \<Rightarrow> point" where
  "line_intersection p1 p2 p3 p4 =
     (let (x1, y1) = p1; (x2, y2) = p2; (x3, y3) = p3; (x4, y4) = p4;
          denom = (x1 - x2) * (y3 - y4) - (y1 - y2) * (x3 - x4)
      in if \<bar>denom\<bar> < tiny then pdiv (padd p2 p3) 2
         else
           let t = ((x1 - x3) * (y3 - y4) - (y1 - y3) * (x3 - x4)) / denom
           in (x1 + t * (x2 - x1), y1 + t * (y2 - y1)))"

text \<open>The normal of the edge from \<open>v1\<close> to \<open>v2\<close>: \<open>[edge[1], -edge[0]]\<close>, divided by its
  length when that exceeds \<open>1e-10\<close>. Only \<open>expand_polygon_preserve_shape\<close> has the
  \<open>else\<close> branch that replaces a shorter normal by the zero vector.\<close>

definition edge_normal :: "bool \<Rightarrow> point \<Rightarrow> point \<Rightarrow> point" where
  "edge_normal zero_if_short v1 v2 =
     (let edge = psub v2 v1;
          normal = (snd edge, - fst edge);
          normal_len = linalg_norm normal
      in if normal_len > tiny then pdiv normal normal_len
         else if zero_if_short then (0, 0) else normal)"

text \<open>The second loop of \<open>expand_polygon_preserve_shape\<close> (and of
  \<open>expand_polygon_directional\<close>): each offset edge is cut with the next one.\<close>

definition join_edges :: "(point \<times> point) list \<Rightarrow> point list" where
  "join_edges expanded_edges =
     (let n = length expanded_edges
      in map (\<lambda>i. let (p1, p2) = expanded_edges ! i;
                       (p3, p4) = expanded_edges ! ((i + 1) mod n)
                   in line_intersection p1 p2 p3 p4)
             [0..<n])"

definition expand_polygon_preserve_shape :: "expander \<Rightarrow> point list \<Rightarrow> point list" where
  "expand_polygon_preserve_shape self vertices0 =
     (let vertices = ensure_counter_clockwise vertices0;
          n = length vertices;
          expanded_edges =
            map (\<lambda>i. let v1 = vertices ! i;
                          v2 = vertices ! ((i + 1) mod n);
                          offset = pscale (edge_normal True v1 v2) (d_exp self)
                      in (padd v1 offset, padd v2 offset))
                [0..<n]
      in join_edges expanded_edges)"

text \<open>The corner loop that \<open>expand_polygon_convex\<close> and the convex branches of the two
  directional routines share word for word: two points per vertex, along the normals of
  the edge before it and of the edge after it. Python's \<open>(i - 1) % n\<close> is the cyclic
  predecessor.\<close>

definition corner_points :: "point list \<Rightarrow> real \<Rightarrow> point list" where
  "corner_points vertices d =
     (let n = length vertices
      in concat
           (map (\<lambda>i. let v_curr = vertices ! i;
                          v_prev = vertices ! ((i + n - 1) mod n);
                          v_next = vertices ! ((i + 1) mod n);
                          normal_prev = edge_normal False v_prev v_curr;
                          normal_next = edge_normal False v_curr v_next
                      in [padd v_curr (pscale normal_prev d), padd v_curr (pscale normal_next d)])
                [0..<n]))"

definition expand_polygon_convex :: "expander \<Rightarrow> point list \<Rightarrow> point list" where
  "expand_polygon_convex self vertices0 =
     corner_points (ensure_counter_clockwise vertices0) (d_exp self)"

definition expand_polygon_generalized ::
  "expander \<Rightarrow> point list \<Rightarrow> (point \<times> point) list \<times> point list \<times> real" where
  "expand_polygon_generalized self vertices0 =
     (let vertices = ensure_counter_clockwise vertices0;
          n = length vertices;
          expanded_edges =
            map (\<lambda>i. let v1 = vertices ! i;
                          v2 = vertices ! ((i + 1) mod n);
                          offset = pscale (edge_normal False v1 v2) (d_exp self)
                      in (padd v1 offset, padd v2 offset))
                [0..<n];
          arc_centers = vertices
      in (expanded_edges, arc_centers, d_exp self))"

subsection \<open>Directional offsetting\<close>

text \<open>The loop that pairs each vertex with its cyclic successor, written out in the
  generalized branch of both directional routines.\<close>

definition cyclic_edges :: "point list \<Rightarrow> (point \<times> point) list" where
  "cyclic_edges vertices =
     (let n = length vertices
      in map (\<lambda>i. (vertices ! i, vertices ! ((i + 1) mod n))) [0..<n])"

text \<open>Python's \<open>max\<close> of four numbers and the text an f-string prints for an optional
  string.\<close>

definition max4 :: "real \<Rightarrow> real \<Rightarrow> real \<Rightarrow> real \<Rightarrow> real" where
  "max4 a b c d = max (max (max a b) c) d"

definition type_str :: "string option \<Rightarrow> string" where
  "type_str t = get_or t ''None''"

text \<open>The last part of both directional routines: the representation the obstacle's own
  \<open>expansion_method\<close> asks for, from the world vertices.\<close>

definition directional_result ::
  "obstacle \<Rightarrow> point list \<Rightarrow> real \<Rightarrow> real \<Rightarrow> real \<Rightarrow> real \<Rightarrow> boundary" where
  "directional_result obstacle world_vertices exp_north exp_south exp_east exp_west =
     (let method = get_or (ob_expansion_method obstacle) METHOD_GENERALIZED
      in if method = METHOD_GENERALIZED then
           Arcs (cyclic_edges world_vertices) world_vertices
                (max4 exp_north exp_south exp_east exp_west)
         else if method = METHOD_CONVEX then
           Polygon (corner_points world_vertices
                      ((exp_north + exp_south + exp_east + exp_west) / 4))
         else Polygon world_vertices)"

definition expand_rectangle_directional :: "obstacle \<Rightarrow> error + boundary option" where
  "expand_rectangle_directional obstacle =
     (if ob_type obstacle \<noteq> Some ''rectangle'' then
        Inl (ValueError ''Directional expansion only works with rectangles'')
      else
        case placement obstacle of
          Inl e \<Rightarrow> Inl e
        | Inr (x, y, width, height) \<Rightarrow>
            let rotation = get_or (ob_rotation obstacle) 0;
                exp_north = directional_get obstacle ''north'';
                exp_south = directional_get obstacle ''south'';
                exp_east = directional_get obstacle ''east'';
                exp_west = directional_get obstacle ''west''
            in if exp_north = 0 \<and> exp_south = 0 \<and> exp_east = 0 \<and> exp_west = 0 then Inr None
               else
                 let local_vertices =
                       [(- exp_west, - exp_north),
                        (width + exp_east, - exp_north),
                        (width + exp_east, height + exp_south),
                        (- exp_west, height + exp_south)];
                     rotated =
                       (if rotation \<noteq> 0
                        then map (rotate_about (width / 2, height / 2) rotation) local_vertices
                        else local_vertices);
                     world_vertices = map (\<lambda>v. padd v (x, y)) rotated
                 in Inr (Some (directional_result obstacle world_vertices
                                 exp_north exp_south exp_east exp_west)))"

text \<open>\<open>_get_local_vertices_for_type\<close>.\<close>

definition get_local_vertices_for_type ::
  "string option \<Rightarrow> real \<Rightarrow> real \<Rightarrow> error + point list" where
  "get_local_vertices_for_type obstacle_type width height =
     (if obstacle_type = Some ''triangle'' then Inr (triangle_vertices width height)
      else if obstacle_type = Some ''pentagon'' then
        Inr (regular_polygon_vertices (width / 2) (height / 2) (min width height / 2) 5)
      else if obstacle_type = Some ''hexagon'' then
        Inr (regular_polygon_vertices (width / 2) (height / 2) (min width height / 2) 6)
      else Inl (ValueError (''Unknown obstacle type: '' @ type_str obstacle_type)))"

text \<open>The first loop of \<open>expand_polygon_directional\<close>: the edge \<open>i\<close>, moved along its
  normal by the projection of the directional vector of its quadrants.\<close>

definition directional_edge ::
  "point list \<Rightarrow> point \<Rightarrow> real \<Rightarrow> real \<Rightarrow> real \<Rightarrow> real \<Rightarrow> nat \<Rightarrow> point \<times> point" where
  "directional_edge local_vertices center exp_north exp_south exp_east exp_west i =
     (let n = length local_vertices;
          v1 = local_vertices ! i;
          v2 = local_vertices ! ((i + 1) mod n);
          edge_midpoint = pdiv (padd v1 v2) 2;
          is_north = snd edge_midpoint < snd center;
          is_south = snd edge_midpoint > snd center;
          is_west = fst edge_midpoint < fst center;
          is_east = fst edge_midpoint > fst center;
          expansion_y = (if is_north then - exp_north else 0) + (if is_south then exp_south else 0);
          expansion_x = (if is_west then - exp_west else 0) + (if is_east then exp_east else 0);
          normal = edge_normal False v1 v2;
          expansion_magnitude = expansion_x * fst normal + expansion_y * snd normal;
          offset = pscale normal expansion_magnitude
      in (padd v1 offset, padd v2 offset))"

definition expand_polygon_directional :: "obstacle \<Rightarrow> error + boundary option" where
  "expand_polygon_directional obstacle =
     (let obstacle_type = ob_type obstacle
      in if obstacle_type \<notin> {Some ''triangle'', Some ''pentagon'', Some ''hexagon''} then
           Inl (ValueError (''Quadrant-based directional expansion not supported for ''
                              @ type_str obstacle_type))
         else
           case placement obstacle of
             Inl e \<Rightarrow> Inl e
           | Inr (x, y, width, height) \<Rightarrow>
               let rotation = get_or (ob_rotation obstacle) 0;
                   exp_north = directional_get obstacle ''north'';
                   exp_south = directional_get obstacle ''south'';
                   exp_east = directional_get obstacle ''east'';
                   exp_west = directional_get obstacle ''west''
               in if exp_north = 0 \<and> exp_south = 0 \<and> exp_east = 0 \<and> exp_west = 0 then Inr None
                  else
                    case get_local_vertices_for_type obstacle_type width height of
                      Inl e \<Rightarrow> Inl e
                    | Inr local_vertices \<Rightarrow>
                        let center = mean_axis0 local_vertices;
                            n = length local_vertices;
                            expanded_vertices =
                              map (directional_edge local_vertices center
                                     exp_north exp_south exp_east exp_west) [0..<n];
                            final_vertices = join_edges expanded_vertices;
                            rotated =
                              (if rotation \<noteq> 0
                               then map (rotate_about center rotation) final_vertices
                               else final_vertices);
                            world_vertices = map (\<lambda>v. padd v (x, y)) rotated
                        in Inr (Some (directional_result obstacle world_vertices
                                        exp_north exp_south exp_east exp_west)))"

subsection \<open>\<open>expand_obstacle\<close>\<close>

text \<open>
  The part of \<open>expand_obstacle\<close> after the comment "Original expansion logic
  continues": the distance is resolved and, when positive, stored in \<open>self.d_exp\<close> for
  the duration of the \<open>try\<close> block; the \<open>finally\<close> clause puts the old value back
  whether the block returned or raised. The function returns the result together with
  the expander as the call leaves it.
\<close>

definition expand_obstacle_uniform ::
  "hull_fn \<Rightarrow> expander \<Rightarrow> obstacle \<Rightarrow> string option \<Rightarrow> bool option
     \<Rightarrow> (error + boundary option) \<times> expander" where
  "expand_obstacle_uniform ConvexHull self obstacle method force_convex_hull_arg =
     (let expansion_dist = get_or (ob_expansion_distance obstacle) (d_exp self)
      in if expansion_dist \<le> 0 then (Inr None, self)
         else
           let old_distance = d_exp self;
               self1 = self\<lparr>d_exp := expansion_dist\<rparr>;
               use_convex_hull0 = get_or force_convex_hull_arg (force_convex_hull self1);
               use_convex_hull = get_or (ob_force_convex_hull obstacle) use_convex_hull0;
               method1 = (case method of
                            None \<Rightarrow> get_or (ob_expansion_method obstacle) METHOD_GENERALIZED
                          | Some m \<Rightarrow> m);
               result =
                 (case obstacle_to_vertices obstacle of
                    Inl e \<Rightarrow> Inl e
                  | Inr vertices0 \<Rightarrow>
                      let vertices = (if use_convex_hull
                                      then compute_convex_hull ConvexHull vertices0
                                      else vertices0)
                      in if method1 = METHOD_PRESERVE_SHAPE then
                           Inr (Some (Polygon (expand_polygon_preserve_shape self1 vertices)))
                         else if method1 = METHOD_CONVEX then
                           Inr (Some (Polygon (expand_polygon_convex self1 vertices)))
                         else if method1 = METHOD_GENERALIZED then
                           (case expand_polygon_generalized self1 vertices of
                              (edges, centers, radius) \<Rightarrow> Inr (Some (Arcs edges centers radius)))
                         else Inl (ValueError (''Unknown method: '' @ method1)));
               self2 = self1\<lparr>d_exp := old_distance\<rparr>
           in (result, self2))"

text \<open>
  \<open>expand_obstacle\<close>: with \<open>use_directional_expansion\<close> set and one of the four
  distances positive, a rectangle goes to \<open>expand_rectangle_directional\<close> and a
  triangle, pentagon or hexagon to \<open>expand_polygon_directional\<close>; every other case
  falls through to the uniform expansion.
\<close>

definition expand_obstacle ::
  "hull_fn \<Rightarrow> expander \<Rightarrow> obstacle \<Rightarrow> string option \<Rightarrow> bool option
     \<Rightarrow> (error + boundary option) \<times> expander" where
  "expand_obstacle ConvexHull self obstacle method force_convex_hull_arg =
     (let exp_north = directional_get obstacle ''north'';
          exp_south = directional_get obstacle ''south'';
          exp_east = directional_get obstacle ''east'';
          exp_west = directional_get obstacle ''west'';
          obstacle_type = ob_type obstacle
      in if get_or (ob_use_directional_expansion obstacle) False
            \<and> (exp_north > 0 \<or> exp_south > 0 \<or> exp_east > 0 \<or> exp_west > 0)
            \<and> obstacle_type = Some ''rectangle''
         then (expand_rectangle_directional obstacle, self)
         else if get_or (ob_use_directional_expansion obstacle) False
            \<and> (exp_north > 0 \<or> exp_south > 0 \<or> exp_east > 0 \<or> exp_west > 0)
            \<and> obstacle_type \<in> {Some ''triangle'', Some ''pentagon'', Some ''hexagon''}
         then (expand_polygon_directional obstacle, self)
         else expand_obstacle_uniform ConvexHull self obstacle method force_convex_hull_arg)"

section \<open>Collision detector (CollisionDetector.py)\<close>

record detector =
  min_spacing :: real

definition COLLISION_BOX_MIN_GAP :: real where
  "COLLISION_BOX_MIN_GAP = 20"

text \<open>
  \<open>get_obstacle_vertices\<close>: the same shapes as \<open>_obstacle_to_vertices\<close>, on Qt points.
  Pentagon and hexagon are built by the loop \<open>angle = -pi/2 + 2*pi*i/k\<close>; the rotation
  is applied whenever it is not zero, about the centre of the bounding box, and an empty
  point list is returned as it is.
\<close>

definition loop_polygon_vertices :: "real \<Rightarrow> real \<Rightarrow> real \<Rightarrow> nat \<Rightarrow> point list" where
  "loop_polygon_vertices cx cy radius k =
     map (\<lambda>i. let angle = - pi / 2 + (2 * pi * real i / real k)
              in (cx + radius * cos angle, cy + radius * sin angle))
         [0..<k]"

definition get_obstacle_vertices :: "obstacle \<Rightarrow> error + point list" where
  "get_obstacle_vertices obstacle =
     (let obstacle_type = get_or (ob_type obstacle) ''rectangle'' in
      case placement obstacle of
        Inl e \<Rightarrow> Inl e
      | Inr (x, y, width, height) \<Rightarrow>
          let rotation = get_or (ob_rotation obstacle) 0;
              local_vertices =
                (if obstacle_type = ''rectangle'' then rectangle_vertices width height
                 else if obstacle_type = ''triangle'' then triangle_vertices width height
                 else if obstacle_type = ''pentagon'' then
                   loop_polygon_vertices (width / 2) (height / 2) (min width height / 2) 5
                 else if obstacle_type = ''hexagon'' then
                   loop_polygon_vertices (width / 2) (height / 2) (min width height / 2) 6
                 else if obstacle_type = ''custom_polygon'' \<and> ob_points obstacle \<noteq> None then
                   the (ob_points obstacle)
                 else rectangle_vertices width height);
              rotated =
                (if rotation \<noteq> 0
                 then map (rotate_about (width / 2, height / 2) rotation) local_vertices
                 else local_vertices)
          in Inr (map (\<lambda>v. (fst v + x, snd v + y)) rotated))"

subsection \<open>Sampling the arcs of an expanded boundary\<close>

text \<open>\<open>math.atan2(y, x)\<close> on reals: the angle of the point \<open>(x, y)\<close> in
  \<open>(-pi, pi]\<close>, and 0 at the origin.\<close>

definition atan2 :: "real \<Rightarrow> real \<Rightarrow> real" where
  "atan2 y x =
     (if x > 0 then arctan (y / x)
      else if x < 0 then (if y \<ge> 0 then arctan (y / x) + pi else arctan (y / x) - pi)
      else if y > 0 then pi / 2
      else if y < 0 then - pi / 2
      else 0)"

definition num_samples :: nat where
  "num_samples = 5"

text \<open>The inner loop \<open>for j in range(1, num_samples)\<close> of \<open>get_expanded_vertices\<close>.\<close>

definition arc_points :: "point \<Rightarrow> real \<Rightarrow> real \<Rightarrow> real \<Rightarrow> point list" where
  "arc_points center radius angle1 angle2 =
     map (\<lambda>j. let t = real j / real num_samples;
                  angle = angle1 + t * (angle2 - angle1)
              in (fst center + radius * cos angle, snd center + radius * sin angle))
         [1..<num_samples]"

text \<open>One pass of the outer loop \<open>for i, edge in enumerate(edges)\<close>: the start of the
  edge, then the points on the arc about the centre \<open>i + 1\<close> between the end of the edge
  and the start of the next edge.\<close>

definition arc_span :: "(point \<times> point) list \<Rightarrow> point list \<Rightarrow> real \<Rightarrow> nat \<Rightarrow> point list" where
  "arc_span edges arc_centers radius i =
     (let edge = edges ! i;
          center = arc_centers ! ((i + 1) mod length arc_centers);
          edge_end = snd edge;
          next_edge_start = fst (edges ! ((i + 1) mod length edges));
          angle1 = atan2 (snd edge_end - snd center) (fst edge_end - fst center);
          angle2 = atan2 (snd next_edge_start - snd center) (fst next_edge_start - fst center)
      in fst edge # arc_points center radius angle1 angle2)"

definition approximate_arcs :: "(point \<times> point) list \<Rightarrow> point list \<Rightarrow> real \<Rightarrow> point list" where
  "approximate_arcs edges arc_centers radius =
     concat (map (arc_span edges arc_centers radius) [0..<length edges])"

text \<open>
  \<open>get_expanded_vertices\<close>. The expander is built for the call with the obstacle's
  distance; \<open>except Exception\<close> turns every error into \<open>None\<close>, and so does an empty
  result (\<open>if not expanded_data\<close>). Unpacking a point list into the triple, or indexing
  an empty list of centres, would raise inside the \<open>try\<close> block and give \<open>None\<close> too.
  A triple under a method other than generalized would be returned as it is; the lemma
  \<open>expand_obstacle_form\<close> below shows that this does not arise, and the model answers
  \<open>None\<close> there.
\<close>

definition get_expanded_vertices :: "hull_fn \<Rightarrow> obstacle \<Rightarrow> point list option" where
  "get_expanded_vertices ConvexHull obstacle =
     (let expansion_dist = get_or (ob_expansion_distance obstacle) 0
      in if expansion_dist \<le> 0 then None
         else
           let expander = \<lparr>d_exp = expansion_dist, force_convex_hull = False\<rparr>;
               method = get_or (ob_expansion_method obstacle) METHOD_GENERALIZED
           in case fst (expand_obstacle ConvexHull expander obstacle (Some method) None) of
                Inl e \<Rightarrow> None
              | Inr None \<Rightarrow> None
              | Inr (Some (Polygon vertices)) \<Rightarrow>
                  if vertices = [] \<or> method = METHOD_GENERALIZED then None else Some vertices
              | Inr (Some (Arcs edges arc_centers radius)) \<Rightarrow>
                  if method = METHOD_GENERALIZED then
                    (if edges \<noteq> [] \<and> arc_centers = [] then None
                     else Some (approximate_arcs edges arc_centers radius))
                  else None)"

subsection \<open>The buffered polygon test\<close>

text \<open>
  Modelled from the spec: \<open>QPolygonF.boundingRect\<close>, \<open>QRectF.adjust\<close>,
  \<open>QPainterPath.addRect\<close> and \<open>QPainterPath.intersects\<close> belong to the Qt library and
  are not among the sources. Section 4.6 of the specification describes them as the
  axis-aligned bounding rectangle, its inflation by the buffer on all four sides, and the
  standard polygon/polygon intersection test. The model of the last is the usual one for
  closed polygonal regions: two boundary segments meet, or the first vertex of one polygon
  lies inside the other (even-odd rule).
\<close>

definition boundingRect :: "point list \<Rightarrow> real \<times> real \<times> real \<times> real" where
  "boundingRect vs =
     (case vs of
        [] \<Rightarrow> (0, 0, 0, 0)
      | v # rest \<Rightarrow>
          (fold min (map fst rest) (fst v), fold min (map snd rest) (snd v),
           fold max (map fst rest) (fst v), fold max (map snd rest) (snd v)))"

definition adjust :: "real \<times> real \<times> real \<times> real \<Rightarrow> real \<Rightarrow> real \<Rightarrow> real \<Rightarrow> real
     \<Rightarrow> real \<times> real \<times> real \<times> real" where
  "adjust r dx1 dy1 dx2 dy2 =
     (case r of (x1, y1, x2, y2) \<Rightarrow> (x1 + dx1, y1 + dy1, x2 + dx2, y2 + dy2))"

definition addRect :: "real \<times> real \<times> real \<times> real \<Rightarrow> point list" where
  "addRect r =
     (case r of (x1, y1, x2, y2) \<Rightarrow> [(x1, y1), (x2, y1), (x2, y2), (x1, y2)])"

definition cross :: "point \<Rightarrow> point \<Rightarrow> point \<Rightarrow> real" where
  "cross a b c = (fst b - fst a) * (snd c - snd a) - (snd b - snd a) * (fst c - fst a)"

definition within_box :: "point \<Rightarrow> point \<Rightarrow> point \<Rightarrow> bool" where
  "within_box a b c \<longleftrightarrow>
     min (fst a) (fst b) \<le> fst c \<and> fst c \<le> max (fst a) (fst b) \<and>
     min (snd a) (snd b) \<le> snd c \<and> snd c \<le> max (snd a) (snd b)"

definition segments_meet :: "point \<times> point \<Rightarrow> point \<times> point \<Rightarrow> bool" where
  "segments_meet e f =
     (case (e, f) of ((a, b), (c, d)) \<Rightarrow>
        (sgn (cross a b c) \<noteq> sgn (cross a b d) \<and> sgn (cross c d a) \<noteq> sgn (cross c d b))
        \<or> (cross a b c = 0 \<and> within_box a b c)
        \<or> (cross a b d = 0 \<and> within_box a b d)
        \<or> (cross c d a = 0 \<and> within_box c d a)
        \<or> (cross c d b = 0 \<and> within_box c d b))"

definition ray_crosses :: "point \<Rightarrow> point \<times> point \<Rightarrow> bool" where
  "ray_crosses p e =
     (case e of ((x1, y1), (x2, y2)) \<Rightarrow>
        (y1 > snd p) \<noteq> (y2 > snd p)
        \<and> fst p < (x2 - x1) * (snd p - y1) / (y2 - y1) + x1)"

definition inside :: "point \<Rightarrow> point list \<Rightarrow> bool" where
  "inside p vs \<longleftrightarrow> odd (length (filter (ray_crosses p) (cyclic_edges vs)))"

definition intersects :: "point list \<Rightarrow> point list \<Rightarrow> bool" where
  "intersects path other \<longleftrightarrow>
     list_ex (\<lambda>e. list_ex (segments_meet e) (cyclic_edges other)) (cyclic_edges path)
     \<or> (other \<noteq> [] \<and> inside (hd other) path)
     \<or> (path \<noteq> [] \<and> inside (hd path) other)"

text \<open>\<open>_check_polygon_overlap\<close>.\<close>

definition check_polygon_overlap :: "point list \<Rightarrow> point list \<Rightarrow> real \<Rightarrow> bool" where
  "check_polygon_overlap vertices1 vertices2 spacing =
     (let path1 = vertices1;
          path1_expanded =
            (if spacing > 0
             then addRect (adjust (boundingRect vertices1) (- spacing) (- spacing) spacing spacing)
             else path1);
          path2 = vertices2
      in intersects path1_expanded path2 \<or> intersects path2 path1_expanded)"

subsection \<open>\<open>check_overlap\<close>\<close>

text \<open>Python's truth value of what \<open>get_expanded_vertices\<close> returns: \<open>None\<close> and the
  empty list count as false.\<close>

definition truthy :: "point list option \<Rightarrow> bool" where
  "truthy v \<longleftrightarrow> (case v of None \<Rightarrow> False | Some vs \<Rightarrow> vs \<noteq> [])"

text \<open>The body of the loop of \<open>check_overlap\<close> for one existing obstacle: \<open>Inr True\<close>
  where the source returns \<open>True\<close>, \<open>Inr False\<close> where it goes on to the next obstacle.
  The \<open>KeyError\<close> of \<open>get_obstacle_vertices\<close> is not caught.\<close>

definition overlaps_existing :: "hull_fn \<Rightarrow> detector \<Rightarrow> obstacle \<Rightarrow> obstacle \<Rightarrow> error + bool" where
  "overlaps_existing ConvexHull self obstacle existing =
     (case get_obstacle_vertices obstacle of
        Inl e \<Rightarrow> Inl e
      | Inr vertices1_original \<Rightarrow>
     (case get_obstacle_vertices existing of
        Inl e \<Rightarrow> Inl e
      | Inr vertices2_original \<Rightarrow>
          if check_polygon_overlap vertices1_original vertices2_original (min_spacing self)
          then Inr True
          else
            let expansion1 = get_or (ob_expansion_distance obstacle) 0;
                expansion2 = get_or (ob_expansion_distance existing) 0;
                vertices1_expanded = get_expanded_vertices ConvexHull obstacle;
                vertices2_expanded = get_expanded_vertices ConvexHull existing
            in if expansion1 > 0 \<and> expansion2 > 0
                  \<and> truthy vertices1_expanded \<and> truthy vertices2_expanded
                  \<and> check_polygon_overlap (the vertices1_expanded) (the vertices2_expanded)
                        COLLISION_BOX_MIN_GAP
               then Inr True
               else if expansion1 > 0 \<and> truthy vertices1_expanded
                  \<and> check_polygon_overlap (the vertices1_expanded) vertices2_original
                        (min_spacing self)
               then Inr True
               else if expansion2 > 0 \<and> truthy vertices2_expanded
                  \<and> check_polygon_overlap vertices1_original (the vertices2_expanded)
                        (min_spacing self)
               then Inr True
               else Inr False))"

text \<open>
  \<open>check_overlap\<close>. The source skips the excluded obstacle by identity
  (\<open>existing is exclude\<close>), so the list carries a reference with every obstacle and
  \<open>exclude\<close> is a reference, or \<open>None\<close>.
\<close>

fun check_overlap ::
  "hull_fn \<Rightarrow> detector \<Rightarrow> obstacle \<Rightarrow> (nat \<times> obstacle) list \<Rightarrow> nat option \<Rightarrow> error + bool" where
  "check_overlap ConvexHull self obstacle [] exclude = Inr False"
| "check_overlap ConvexHull self obstacle ((r, existing) # obstacles_list) exclude =
     (if exclude = Some r then check_overlap ConvexHull self obstacle obstacles_list exclude
      else
        case overlaps_existing ConvexHull self obstacle existing of
          Inl e \<Rightarrow> Inl e
        | Inr True \<Rightarrow> Inr True
        | Inr False \<Rightarrow> check_overlap ConvexHull self obstacle obstacles_list exclude)"

subsection \<open>Checks while a polygon is drawn\<close>

text \<open>The two local functions of \<open>segments_intersect\<close>, term by term as written.\<close>

definition orientation :: "point \<Rightarrow> point \<Rightarrow> point \<Rightarrow> nat" where
  "orientation p q r =
     (let val = (snd q - snd p) * (fst r - fst q) - (fst q - fst p) * (snd r - snd p)
      in if val = 0 then 0 else if val > 0 then 1 else 2)"

definition on_segment :: "point \<Rightarrow> point \<Rightarrow> point \<Rightarrow> bool" where
  "on_segment p q r \<longleftrightarrow>
     fst q \<le> max (fst p) (fst r) \<and> fst q \<ge> min (fst p) (fst r) \<and>
     snd q \<le> max (snd p) (snd r) \<and> snd q \<ge> min (snd p) (snd r)"

definition segments_intersect :: "point \<Rightarrow> point \<Rightarrow> point \<Rightarrow> point \<Rightarrow> bool" where
  "segments_intersect p1 p2 p3 p4 =
     (let o1 = orientation p1 p2 p3;
          o2 = orientation p1 p2 p4;
          o3 = orientation p3 p4 p1;
          o4 = orientation p3 p4 p2
      in if o1 \<noteq> o2 \<and> o3 \<noteq> o4 then True
         else if o1 = 0 \<and> on_segment p1 p3 p2 then True
         else if o2 = 0 \<and> on_segment p1 p4 p2 then True
         else if o3 = 0 \<and> on_segment p3 p1 p4 then True
         else if o4 = 0 \<and> on_segment p3 p2 p4 then True
         else False)"

text \<open>\<open>check_new_edge_intersection\<close>: the first loop runs over \<open>range(len - 1)\<close>, the
  second over \<open>range(1, len - 1)\<close>; each returns \<open>True\<close> at the first hit.\<close>

definition check_new_edge_intersection :: "point list \<Rightarrow> point \<Rightarrow> bool" where
  "check_new_edge_intersection existing_points new_point =
     (if length existing_points < 2 then False
      else
        let last_point = last existing_points
        in if list_ex (\<lambda>i. segments_intersect last_point new_point
                              (existing_points ! i) (existing_points ! (i + 1)))
                      [0..<length existing_points - 1]
           then True
           else if length existing_points \<ge> 2 then
             (let first_point = existing_points ! 0
              in if list_ex (\<lambda>i. segments_intersect new_point first_point
                                    (existing_points ! i) (existing_points ! (i + 1)))
                            [1..<length existing_points - 1]
                 then True
                 else False)
           else False)"

section \<open>Obstacles used in the statements\<close>

text \<open>The dictionary the canvas builds for a new shape (\<open>Canvas.py\<close>): type, placement,
  rotation 0, expansion distance 0, the generalized method and no convex hull.\<close>

definition new_obstacle :: "string \<Rightarrow> real \<Rightarrow> real \<Rightarrow> real \<Rightarrow> real \<Rightarrow> obstacle" where
  "new_obstacle shape_type x y width height =
     \<lparr>ob_type = Some shape_type, ob_x = Some x, ob_y = Some y,
      ob_width = Some width, ob_height = Some height, ob_rotation = Some 0,
      ob_can_rotate = None, ob_points = None,
      ob_expansion_distance = Some 0, ob_expansion_method = Some METHOD_GENERALIZED,
      ob_use_directional_expansion = None, ob_directional_expansion = None,
      ob_force_convex_hull = Some False\<rparr>"

text \<open>The square of side 100 at the origin with expansion distance 10 and a given method.\<close>

definition square100 :: "string \<Rightarrow> obstacle" where
  "square100 method =
     (new_obstacle ''rectangle'' 0 0 100 100)
       \<lparr>ob_expansion_distance := Some 10, ob_expansion_method := Some method\<rparr>"

text \<open>The condition under which \<open>expand_obstacle\<close> hands the obstacle to one of the
  two directional routines.\<close>

definition directional_branch :: "obstacle \<Rightarrow> bool" where
  "directional_branch obstacle \<longleftrightarrow>
     get_or (ob_use_directional_expansion obstacle) False
     \<and> (directional_get obstacle ''north'' > 0 \<or> directional_get obstacle ''south'' > 0
        \<or> directional_get obstacle ''east'' > 0 \<or> directional_get obstacle ''west'' > 0)
     \<and> ob_type obstacle
         \<in> {Some ''rectangle'', Some ''triangle'', Some ''pentagon'', Some ''hexagon''}"

text \<open>The square of side 100 after the user has set every direction to 0
  (\<open>on_directional_expansion_changed\<close> in \<open>mainWindow.py\<close> stores the value and sets
  \<open>use_directional_expansion\<close>); its uniform distance is still 10.\<close>

definition zero_directions :: "string \<rightharpoonup> real" where
  "zero_directions = [''north'' \<mapsto> 0, ''south'' \<mapsto> 0, ''east'' \<mapsto> 0, ''west'' \<mapsto> 0]"

definition square100_zero_directions :: obstacle where
  "square100_zero_directions =
     (square100 METHOD_GENERALIZED)
       \<lparr>ob_use_directional_expansion := Some True,
        ob_directional_expansion := Some zero_directions\<rparr>"

text \<open>The five kinds of the specification, as the type strings of the source.\<close>

definition known_kinds :: "string set" where
  "known_kinds = {''rectangle'', ''triangle'', ''pentagon'', ''hexagon'', ''custom_polygon''}"

text \<open>A custom polygon (the dictionary of \<open>PolygonEditor.py\<close>) with the corners of the
  square of side 100 as its points, expansion distance 10, and directional expansion
  requested with 5 to the north.\<close>

definition custom_square :: obstacle where
  "custom_square =
     \<lparr>ob_type = Some ''custom_polygon'', ob_x = Some 0, ob_y = Some 0,
      ob_width = Some 100, ob_height = Some 100, ob_rotation = Some 0,
      ob_can_rotate = Some False,
      ob_points = Some [(0, 0), (100, 0), (100, 100), (0, 100)],
      ob_expansion_distance = Some 10, ob_expansion_method = Some METHOD_GENERALIZED,
      ob_use_directional_expansion = Some True,
      ob_directional_expansion = Some [''north'' \<mapsto> 5],
      ob_force_convex_hull = Some False\<rparr>"

text \<open>A new square obstacle of side 50 with its top-left corner at \<open>(x, y)\<close>; its
  expansion distance is 0.\<close>

definition square50 :: "real \<Rightarrow> real \<Rightarrow> obstacle" where
  "square50 x y = new_obstacle ''rectangle'' x y 50 50"

section \<open>Properties\<close>

subsection \<open>Signed area of short lists\<close>

lemma signed_area3:
  "signed_area [a, b, c] =
     fst a * snd b - fst b * snd a + (fst b * snd c - fst c * snd b)
     + (fst c * snd a - fst a * snd c)"
  by (simp add: signed_area_def shoelace_term_def case_prod_beta Let_def)

lemma signed_area4:
  "signed_area [a, b, c, d] =
     fst a * snd b - fst b * snd a + (fst b * snd c - fst c * snd b)
     + (fst c * snd d - fst d * snd c) + (fst d * snd a - fst a * snd d)"
  by (simp add: signed_area_def shoelace_term_def case_prod_beta Let_def)

text \<open>
  C8 (evaluation at the failing input). The three grid points (0,0), (20,20), (40,40)
  lie on one line and have signed area 0. The test \<open>signed_area > 0\<close> is false, so
  \<open>_ensure_counter_clockwise\<close> reverses the list, and a second application reverses it
  back: normalizing twice gives the list itself, which differs from normalizing once.
\<close>

theorem ensure_counter_clockwise_reverses_collinear:
  "length [(0, 0), (20, 20), (40, 40) :: point] \<ge> 3
   \<and> signed_area [(0, 0), (20, 20), (40, 40)] = 0
   \<and> ensure_counter_clockwise [(0, 0), (20, 20), (40, 40)] = [(40, 40), (20, 20), (0, 0)]
   \<and> ensure_counter_clockwise (ensure_counter_clockwise [(0, 0), (20, 20), (40, 40)])
       = [(0, 0), (20, 20), (40, 40)]
   \<and> ensure_counter_clockwise (ensure_counter_clockwise [(0, 0), (20, 20), (40, 40)])
       \<noteq> ensure_counter_clockwise [(0, 0), (20, 20), (40, 40)]"
  by (simp add: ensure_counter_clockwise_def is_counter_clockwise_def signed_area3)

subsection \<open>The square of side 100\<close>

lemma linalg_norm_axis: "linalg_norm (0, c) = \<bar>c\<bar>" "linalg_norm (c, 0) = \<bar>c\<bar>"
  by (simp_all add: linalg_norm_def)

lemma square_ccw:
  "ensure_counter_clockwise [(0, 0), (100, 0), (100, 100), (0, 100)]
     = [(0, 0), (100, 0), (100, 100), (0, 100)]"
  by (simp add: ensure_counter_clockwise_def is_counter_clockwise_def signed_area4)

lemma square100_vertices:
  "obstacle_to_vertices (square100 m) = Inr [(0, 0), (100, 0), (100, 100), (0, 100)]"
  by (simp add: obstacle_to_vertices_def square100_def new_obstacle_def get_or_def placement_def
        rectangle_vertices_def padd_def Let_def)

lemma square100_not_directional: "directional_get (square100 m) k = 0"
  by (simp add: directional_get_def square100_def new_obstacle_def)

lemma generalized_square:
  "expand_polygon_generalized \<lparr>d_exp = 10, force_convex_hull = f\<rparr>
       [(0, 0), (100, 0), (100, 100), (0, 100)]
     = ([((0, -10), (100, -10)), ((110, 0), (110, 100)),
         ((100, 110), (0, 110)), ((-10, 100), (-10, 0))],
        [(0, 0), (100, 0), (100, 100), (0, 100)], 10)"
  by (simp add: expand_polygon_generalized_def square_ccw Let_def edge_normal_def psub_def
        padd_def pscale_def pdiv_def linalg_norm_axis tiny_def)

lemma preserve_shape_square:
  "expand_polygon_preserve_shape \<lparr>d_exp = 10, force_convex_hull = f\<rparr>
       [(0, 0), (100, 0), (100, 100), (0, 100)]
     = [(110, -10), (110, 110), (-10, 110), (-10, -10)]"
  by (simp add: expand_polygon_preserve_shape_def join_edges_def line_intersection_def
        square_ccw Let_def edge_normal_def psub_def padd_def pscale_def pdiv_def
        linalg_norm_axis tiny_def)

lemma expander_set_d_exp:
  "self\<lparr>d_exp := d\<rparr> = \<lparr>d_exp = d, force_convex_hull = force_convex_hull self\<rparr>"
  by simp

text \<open>
  C5. For the square with width 100, height 100, top-left corner (0,0), no rotation,
  expansion distance 10 and the generalized (arc) method, \<open>expand_obstacle\<close> returns
  four straight edges, each the side of the square moved outward by 10 and each of
  length 100, the four corners of the square as arc centers, and the arc radius 10;
  this holds for every expander it is called on and every convex hull routine.
\<close>

theorem expand_square_generalized:
  "fst (expand_obstacle ConvexHull self (square100 METHOD_GENERALIZED) None None)
     = Inr (Some (Arcs [((0, -10), (100, -10)), ((110, 0), (110, 100)),
                        ((100, 110), (0, 110)), ((-10, 100), (-10, 0))]
                       [(0, 0), (100, 0), (100, 100), (0, 100)] 10))
   \<and> map (\<lambda>e. linalg_norm (psub (snd e) (fst e)))
          [((0, -10), (100, -10)), ((110, 0), (110, 100)),
           ((100, 110), (0, 110)), ((-10, 100), (-10, 0 :: real))]
       = [100, 100, 100, 100]"
proof -
  have "fst (expand_obstacle ConvexHull self (square100 METHOD_GENERALIZED) None None)
     = Inr (Some (Arcs [((0, -10), (100, -10)), ((110, 0), (110, 100)),
                        ((100, 110), (0, 110)), ((-10, 100), (-10, 0))]
                       [(0, 0), (100, 0), (100, 100), (0, 100)] 10))"
    apply (simp add: expand_obstacle_def square100_not_directional Let_def)
    apply (simp add: expand_obstacle_uniform_def square100_vertices Let_def)
    apply (simp add: square100_def new_obstacle_def get_or_def METHOD_GENERALIZED_def
             METHOD_CONVEX_def METHOD_PRESERVE_SHAPE_def expander_set_d_exp generalized_square)
    done
  moreover have "map (\<lambda>e. linalg_norm (psub (snd e) (fst e)))
          [((0, -10), (100, -10)), ((110, 0), (110, 100)),
           ((100, 110), (0, 110)), ((-10, 100), (-10, 0 :: real))]
       = [100, 100, 100, 100]"
    by (simp add: psub_def linalg_norm_axis)
  ultimately show ?thesis by simp
qed

text \<open>
  C6. For the same square with the preserve-shape (mitered) method, \<open>expand_obstacle\<close>
  returns exactly four vertices, the corners (-10,-10), (110,-10), (110,110), (-10,110)
  of the square of side 120 with the same centre; the list starts at (110,-10).
\<close>

theorem expand_square_preserve_shape:
  "fst (expand_obstacle ConvexHull self (square100 METHOD_PRESERVE_SHAPE) None None)
     = Inr (Some (Polygon [(110, -10), (110, 110), (-10, 110), (-10, -10)]))
   \<and> length [(110, -10), (110, 110), (-10, 110), (-10, -10 :: real)] = 4
   \<and> set [(110, -10), (110, 110), (-10, 110), (-10, -10 :: real)]
       = {(-10, -10), (110, -10), (110, 110), (-10, 110)}"
proof -
  have "fst (expand_obstacle ConvexHull self (square100 METHOD_PRESERVE_SHAPE) None None)
     = Inr (Some (Polygon [(110, -10), (110, 110), (-10, 110), (-10, -10)]))"
    apply (simp add: expand_obstacle_def square100_not_directional Let_def)
    apply (simp add: expand_obstacle_uniform_def square100_vertices Let_def)
    apply (simp add: square100_def new_obstacle_def get_or_def METHOD_GENERALIZED_def
             METHOD_CONVEX_def METHOD_PRESERVE_SHAPE_def expander_set_d_exp
             preserve_shape_square)
    done
  moreover have "set [(110, -10), (110, 110), (-10, 110), (-10, -10 :: real)]
       = {(-10, -10), (110, -10), (110, 110), (-10, 110 :: real)}"
    by auto
  ultimately show ?thesis by simp
qed

subsection \<open>The expander after a call\<close>

lemma expand_obstacle_uniform_restores:
  "snd (expand_obstacle_uniform ConvexHull self obstacle method fch) = self"
  by (simp add: expand_obstacle_uniform_def Let_def)

text \<open>
  C10. For every obstacle, every method argument and every convex-hull argument, the
  expander that \<open>expand_obstacle\<close> leaves behind is the expander it was called on, so
  \<open>d_exp\<close> has its old value; this includes the call that raises on an unknown method,
  such as the method \<open>bogus\<close> on the square of side 100.
\<close>

theorem expand_obstacle_restores_d_exp:
  "d_exp (snd (expand_obstacle ConvexHull self obstacle method fch)) = d_exp self
   \<and> snd (expand_obstacle ConvexHull self obstacle method fch) = self
   \<and> fst (expand_obstacle ConvexHull self (square100 ''bogus'') None None)
       = Inl (ValueError ''Unknown method: bogus'')
   \<and> d_exp (snd (expand_obstacle ConvexHull self (square100 ''bogus'') None None)) = d_exp self"
proof -
  have a: "snd (expand_obstacle ConvexHull self ob m f) = self" for ob m f
    by (simp add: expand_obstacle_def Let_def expand_obstacle_uniform_restores)
  have b: "fst (expand_obstacle ConvexHull self (square100 ''bogus'') None None)
       = Inl (ValueError ''Unknown method: bogus'')"
    apply (simp add: expand_obstacle_def square100_not_directional Let_def)
    apply (simp add: expand_obstacle_uniform_def square100_vertices Let_def)
    apply (simp add: square100_def new_obstacle_def get_or_def METHOD_GENERALIZED_def
             METHOD_CONVEX_def METHOD_PRESERVE_SHAPE_def)
    done
  show ?thesis by (simp add: a b)
qed

subsection \<open>When no boundary is returned\<close>

lemma expand_obstacle_uniform_none_iff:
  "fst (expand_obstacle_uniform ConvexHull self obstacle method fch) = Inr None
     \<longleftrightarrow> get_or (ob_expansion_distance obstacle) (d_exp self) \<le> 0"
  by (auto simp add: expand_obstacle_uniform_def Let_def split: sum.splits prod.splits)

lemma expand_rectangle_directional_not_none:
  "directional_get obstacle ''north'' > 0 \<or> directional_get obstacle ''south'' > 0
     \<or> directional_get obstacle ''east'' > 0 \<or> directional_get obstacle ''west'' > 0
   \<Longrightarrow> expand_rectangle_directional obstacle \<noteq> Inr None"
  by (auto simp add: expand_rectangle_directional_def Let_def split: sum.splits prod.splits)

lemma expand_polygon_directional_not_none:
  "directional_get obstacle ''north'' > 0 \<or> directional_get obstacle ''south'' > 0
     \<or> directional_get obstacle ''east'' > 0 \<or> directional_get obstacle ''west'' > 0
   \<Longrightarrow> expand_polygon_directional obstacle \<noteq> Inr None"
  by (auto simp add: expand_polygon_directional_def Let_def split: sum.splits prod.splits)

lemma expand_obstacle_none_characterised:
  "fst (expand_obstacle ConvexHull self obstacle method fch) = Inr None
     \<longleftrightarrow> \<not> directional_branch obstacle
         \<and> get_or (ob_expansion_distance obstacle) (d_exp self) \<le> 0"
proof (cases "directional_branch obstacle")
  case True
  then show ?thesis
    unfolding directional_branch_def
    by (auto simp add: expand_obstacle_def Let_def expand_rectangle_directional_not_none
          expand_polygon_directional_not_none)
next
  case False
  then show ?thesis
    unfolding directional_branch_def
    by (auto simp add: expand_obstacle_def Let_def expand_obstacle_uniform_none_iff)
qed

lemma directional_routines_all_zero:
  "directional_get obstacle ''north'' = 0 \<Longrightarrow> directional_get obstacle ''south'' = 0 \<Longrightarrow>
   directional_get obstacle ''east'' = 0 \<Longrightarrow> directional_get obstacle ''west'' = 0 \<Longrightarrow>
   placement obstacle = Inr pl \<Longrightarrow>
   (ob_type obstacle = Some ''rectangle'' \<longrightarrow> expand_rectangle_directional obstacle = Inr None)
   \<and> (ob_type obstacle \<in> {Some ''triangle'', Some ''pentagon'', Some ''hexagon''}
        \<longrightarrow> expand_polygon_directional obstacle = Inr None)"
  by (cases pl)
     (auto simp add: expand_rectangle_directional_def expand_polygon_directional_def Let_def)

lemma square100_zero_directions_get:
  "k \<in> {''north'', ''south'', ''east'', ''west''}
     \<Longrightarrow> directional_get square100_zero_directions k = 0"
  by (auto simp add: directional_get_def square100_zero_directions_def zero_directions_def
        get_or_def)

text \<open>
  C2 (as amended). \<open>expand_obstacle\<close> returns \<open>None\<close> exactly when the obstacle does
  not take the directional branch (directional mode off, or none of the four distances
  positive, or a kind other than rectangle, triangle, pentagon, hexagon) and the resolved
  expansion distance is at most 0. With all four directional distances 0 the call falls
  through to the uniform expansion, so the result is \<open>None\<close> exactly when the resolved
  distance is at most 0, whatever the directional flag says. The two directional routines,
  called on their own with all four distances 0, return \<open>None\<close>.
\<close>

theorem expand_obstacle_none_iff:
  assumes "directional_get obstacle ''north'' = 0" and "directional_get obstacle ''south'' = 0"
    and "directional_get obstacle ''east'' = 0" and "directional_get obstacle ''west'' = 0"
    and "placement obstacle = Inr pl"
  shows "(fst (expand_obstacle ConvexHull self obstacle method fch) = Inr None
            \<longleftrightarrow> get_or (ob_expansion_distance obstacle) (d_exp self) \<le> 0)
       \<and> (ob_type obstacle = Some ''rectangle''
            \<longrightarrow> expand_rectangle_directional obstacle = Inr None)
       \<and> (ob_type obstacle \<in> {Some ''triangle'', Some ''pentagon'', Some ''hexagon''}
            \<longrightarrow> expand_polygon_directional obstacle = Inr None)
       \<and> (\<forall>other. fst (expand_obstacle ConvexHull self other method fch) = Inr None
            \<longleftrightarrow> \<not> directional_branch other
                \<and> get_or (ob_expansion_distance other) (d_exp self) \<le> 0)"
proof -
  from assms have "\<not> directional_branch obstacle"
    by (simp add: directional_branch_def)
  then have "fst (expand_obstacle ConvexHull self obstacle method fch) = Inr None
            \<longleftrightarrow> get_or (ob_expansion_distance obstacle) (d_exp self) \<le> 0"
    by (simp add: expand_obstacle_none_characterised)
  with directional_routines_all_zero[OF assms] show ?thesis
    by (simp add: expand_obstacle_none_characterised)
qed

theorem expand_obstacle_none_iff_witness:
  "directional_get square100_zero_directions ''north'' = 0
   \<and> directional_get square100_zero_directions ''south'' = 0
   \<and> directional_get square100_zero_directions ''east'' = 0
   \<and> directional_get square100_zero_directions ''west'' = 0
   \<and> placement square100_zero_directions = Inr (0, 0, 100, 100)
   \<and> ob_type square100_zero_directions = Some ''rectangle''
   \<and> expand_rectangle_directional square100_zero_directions = Inr None
   \<and> fst (expand_obstacle (\<lambda>vs. None) \<lparr>d_exp = 0, force_convex_hull = False\<rparr>
            square100_zero_directions None None) \<noteq> Inr None"
proof -
  have p: "placement square100_zero_directions = Inr (0, 0, 100, 100)"
    by (simp add: placement_def square100_zero_directions_def square100_def new_obstacle_def)
  have t: "ob_type square100_zero_directions = Some ''rectangle''"
    by (simp add: square100_zero_directions_def square100_def new_obstacle_def)
  have d: "get_or (ob_expansion_distance square100_zero_directions) 0 = 10"
    by (simp add: square100_zero_directions_def square100_def new_obstacle_def get_or_def)
  have n: "directional_get square100_zero_directions ''north'' = 0"
    and s: "directional_get square100_zero_directions ''south'' = 0"
    and e: "directional_get square100_zero_directions ''east'' = 0"
    and w: "directional_get square100_zero_directions ''west'' = 0"
    by (simp_all add: square100_zero_directions_get)
  from expand_obstacle_none_iff [OF n s e w p, of "\<lambda>vs. None"
         "\<lparr>d_exp = 0, force_convex_hull = False\<rparr>" None None]
  show ?thesis by (simp add: n s e w p t d)
qed

text \<open>
  C2 as stated fails: the square has directional mode enabled and all four directional
  distances 0, but its base expansion distance is 10, and \<open>expand_obstacle\<close> returns the
  uniform boundary instead of \<open>None\<close>.
\<close>

theorem expand_obstacle_zero_directions_counterexample:
  "get_or (ob_use_directional_expansion square100_zero_directions) False
   \<and> directional_get square100_zero_directions ''north'' = 0
   \<and> directional_get square100_zero_directions ''south'' = 0
   \<and> directional_get square100_zero_directions ''east'' = 0
   \<and> directional_get square100_zero_directions ''west'' = 0
   \<and> fst (expand_obstacle (\<lambda>vs. None) \<lparr>d_exp = 0, force_convex_hull = False\<rparr>
             square100_zero_directions None None)
       = Inr (Some (Arcs [((0, -10), (100, -10)), ((110, 0), (110, 100)),
                        ((100, 110), (0, 110)), ((-10, 100), (-10, 0))]
                       [(0, 0), (100, 0), (100, 100), (0, 100)] 10))"
proof -
  have v: "obstacle_to_vertices square100_zero_directions
             = Inr [(0, 0), (100, 0), (100, 100), (0, 100)]"
    by (simp add: obstacle_to_vertices_def square100_zero_directions_def square100_def
          new_obstacle_def get_or_def placement_def rectangle_vertices_def padd_def Let_def)
  have e: "fst (expand_obstacle (\<lambda>vs. None) \<lparr>d_exp = 0, force_convex_hull = False\<rparr>
             square100_zero_directions None None)
       = Inr (Some (Arcs [((0, -10), (100, -10)), ((110, 0), (110, 100)),
                        ((100, 110), (0, 110)), ((-10, 100), (-10, 0))]
                       [(0, 0), (100, 0), (100, 100), (0, 100)] 10))"
    apply (simp add: expand_obstacle_def square100_zero_directions_get Let_def)
    apply (simp add: expand_obstacle_uniform_def v Let_def)
    apply (simp add: square100_zero_directions_def square100_def new_obstacle_def get_or_def
             METHOD_GENERALIZED_def METHOD_CONVEX_def METHOD_PRESERVE_SHAPE_def
             generalized_square)
    done
  show ?thesis
    by (simp add: square100_zero_directions_get e)
       (simp add: square100_zero_directions_def get_or_def)
qed

subsection \<open>Unknown kinds\<close>

text \<open>
  C3 (as amended). For an obstacle whose type is none of rectangle, triangle, pentagon,
  hexagon, custom_polygon, both vertex extractions return what they return for the same
  obstacle with type rectangle: the corners of its bounding rectangle, rotated and
  translated. Neither signals an invalid argument.
\<close>

theorem unknown_kind_defaults_to_rectangle:
  assumes "ob_type obstacle = Some t" and "t \<notin> known_kinds"
  shows "obstacle_to_vertices obstacle
           = obstacle_to_vertices (obstacle\<lparr>ob_type := Some ''rectangle''\<rparr>)
       \<and> get_obstacle_vertices obstacle
           = get_obstacle_vertices (obstacle\<lparr>ob_type := Some ''rectangle''\<rparr>)
       \<and> obstacle_to_vertices obstacle \<noteq> Inl (ValueError msg)
       \<and> get_obstacle_vertices obstacle \<noteq> Inl (ValueError msg)"
  using assms
  by (auto simp add: known_kinds_def obstacle_to_vertices_def get_obstacle_vertices_def
        get_or_def placement_def Let_def rectangle_vertices_def
      split: option.splits)

theorem unknown_kind_defaults_to_rectangle_witness:
  "ob_type (new_obstacle ''circle'' 0 0 100 100) = Some ''circle''
   \<and> ''circle'' \<notin> known_kinds
   \<and> obstacle_to_vertices (new_obstacle ''circle'' 0 0 100 100)
       = obstacle_to_vertices ((new_obstacle ''circle'' 0 0 100 100)\<lparr>ob_type := Some ''rectangle''\<rparr>)
   \<and> get_obstacle_vertices (new_obstacle ''circle'' 0 0 100 100)
       = get_obstacle_vertices ((new_obstacle ''circle'' 0 0 100 100)\<lparr>ob_type := Some ''rectangle''\<rparr>)"
proof -
  have t: "ob_type (new_obstacle ''circle'' 0 0 100 100) = Some ''circle''"
    by (simp add: new_obstacle_def)
  have k: "''circle'' \<notin> known_kinds"
    by (simp add: known_kinds_def)
  from unknown_kind_defaults_to_rectangle [OF t k] t k show ?thesis by simp
qed

text \<open>
  C3 as stated fails: for the type \<open>circle\<close> both extractions return the corners of the
  rectangle and no error.
\<close>

theorem unknown_kind_counterexample:
  "''circle'' \<notin> known_kinds
   \<and> obstacle_to_vertices (new_obstacle ''circle'' 0 0 100 100)
       = Inr [(0, 0), (100, 0), (100, 100), (0, 100)]
   \<and> get_obstacle_vertices (new_obstacle ''circle'' 0 0 100 100)
       = Inr [(0, 0), (100, 0), (100, 100), (0, 100)]"
  by (simp add: known_kinds_def obstacle_to_vertices_def get_obstacle_vertices_def
        new_obstacle_def get_or_def placement_def rectangle_vertices_def padd_def Let_def)

subsection \<open>Custom polygons and the directional settings\<close>

lemma obstacle_to_vertices_ignores_directional:
  "obstacle_to_vertices (obstacle\<lparr>ob_use_directional_expansion := v\<rparr>)
     = obstacle_to_vertices obstacle"
proof -
  have p: "placement (obstacle\<lparr>ob_use_directional_expansion := v\<rparr>) = placement obstacle"
    by (simp add: placement_def cong: option.case_cong)
  show ?thesis
    by (simp add: obstacle_to_vertices_def p Let_def
          cong: sum.case_cong prod.case_cong if_cong)
qed

lemma expand_obstacle_uniform_ignores_directional:
  "expand_obstacle_uniform ConvexHull self
       (obstacle\<lparr>ob_use_directional_expansion := v\<rparr>) method fch
     = expand_obstacle_uniform ConvexHull self obstacle method fch"
  by (cases "method")
     (simp_all add: expand_obstacle_uniform_def obstacle_to_vertices_ignores_directional
        Let_def cong: if_cong sum.case_cong)

lemma custom_polygon_goes_uniform:
  "ob_type obstacle = Some ''custom_polygon'' \<Longrightarrow>
   expand_obstacle ConvexHull self obstacle method fch
     = expand_obstacle_uniform ConvexHull self obstacle method fch"
  by (simp add: expand_obstacle_def Let_def)

lemma custom_square_vertices:
  "obstacle_to_vertices custom_square = Inr [(0, 0), (100, 0), (100, 100), (0, 100)]"
  by (simp add: obstacle_to_vertices_def custom_square_def get_or_def placement_def padd_def
        Let_def)

text \<open>
  C4 (as amended). For every custom-polygon obstacle, \<open>expand_obstacle\<close> ignores the
  directional settings: it returns what it returns with directional mode switched off,
  namely the uniform expansion. The invalid-argument error for a custom polygon comes
  only from the two directional routines when they are called on their own.
\<close>

theorem custom_polygon_directional_ignored:
  assumes "ob_type obstacle = Some ''custom_polygon''"
  shows "expand_obstacle ConvexHull self obstacle method fch
           = expand_obstacle ConvexHull self
               (obstacle\<lparr>ob_use_directional_expansion := Some False\<rparr>) method fch
       \<and> expand_obstacle ConvexHull self obstacle method fch
           = expand_obstacle_uniform ConvexHull self obstacle method fch
       \<and> expand_rectangle_directional obstacle
           = Inl (ValueError ''Directional expansion only works with rectangles'')
       \<and> expand_polygon_directional obstacle
           = Inl (ValueError
                   ''Quadrant-based directional expansion not supported for custom_polygon'')"
proof -
  have t: "ob_type (obstacle\<lparr>ob_use_directional_expansion := Some False\<rparr>)
             = Some ''custom_polygon''"
    using assms by simp
  have a: "expand_obstacle ConvexHull self obstacle method fch
           = expand_obstacle ConvexHull self
               (obstacle\<lparr>ob_use_directional_expansion := Some False\<rparr>) method fch"
    by (simp only: custom_polygon_goes_uniform[OF assms] custom_polygon_goes_uniform[OF t]
          expand_obstacle_uniform_ignores_directional)
  have b: "expand_rectangle_directional obstacle
           = Inl (ValueError ''Directional expansion only works with rectangles'')"
    using assms by (simp add: expand_rectangle_directional_def)
  have c: "expand_polygon_directional obstacle
           = Inl (ValueError
                   ''Quadrant-based directional expansion not supported for custom_polygon'')"
    using assms by (simp add: expand_polygon_directional_def type_str_def get_or_def Let_def)
  from a b c custom_polygon_goes_uniform[OF assms] show ?thesis by simp
qed

theorem custom_polygon_directional_ignored_witness:
  "ob_type custom_square = Some ''custom_polygon''
   \<and> expand_obstacle (\<lambda>vs. None) \<lparr>d_exp = 0, force_convex_hull = False\<rparr> custom_square
         None None
       = expand_obstacle (\<lambda>vs. None) \<lparr>d_exp = 0, force_convex_hull = False\<rparr>
           (custom_square\<lparr>ob_use_directional_expansion := Some False\<rparr>) None None
   \<and> expand_polygon_directional custom_square
       = Inl (ValueError
               ''Quadrant-based directional expansion not supported for custom_polygon'')"
proof -
  have t: "ob_type custom_square = Some ''custom_polygon''"
    by (simp add: custom_square_def)
  from custom_polygon_directional_ignored [OF t] t show ?thesis by simp
qed

text \<open>
  C4 as stated fails: the custom polygon asks for a directional expansion of 5 to the
  north, and \<open>expand_obstacle\<close> returns the uniform boundary at distance 10 without an
  error.
\<close>

theorem custom_polygon_directional_counterexample:
  "get_or (ob_use_directional_expansion custom_square) False
   \<and> directional_get custom_square ''north'' > 0
   \<and> fst (expand_obstacle (\<lambda>vs. None) \<lparr>d_exp = 0, force_convex_hull = False\<rparr>
            custom_square None None)
       = Inr (Some (Arcs [((0, -10), (100, -10)), ((110, 0), (110, 100)),
                        ((100, 110), (0, 110)), ((-10, 100), (-10, 0))]
                       [(0, 0), (100, 0), (100, 100), (0, 100)] 10))"
proof -
  have e: "fst (expand_obstacle (\<lambda>vs. None) \<lparr>d_exp = 0, force_convex_hull = False\<rparr>
            custom_square None None)
       = Inr (Some (Arcs [((0, -10), (100, -10)), ((110, 0), (110, 100)),
                        ((100, 110), (0, 110)), ((-10, 100), (-10, 0))]
                       [(0, 0), (100, 0), (100, 100), (0, 100)] 10))"
    apply (simp add: expand_obstacle_def Let_def)
    apply (simp add: expand_obstacle_uniform_def custom_square_vertices Let_def)
    apply (simp add: custom_square_def get_or_def METHOD_GENERALIZED_def
             METHOD_CONVEX_def METHOD_PRESERVE_SHAPE_def generalized_square)
    done
  show ?thesis
    by (simp add: e) (simp add: custom_square_def get_or_def directional_get_def)
qed

subsection \<open>The new edge of a polygon being drawn\<close>

text \<open>
  C9 (evaluation at the failing input). With the two grid points (0,0), (20,0) placed,
  the only placed edge is adjacent to both candidate edges of the new point (20,20); the
  first loop tests it all the same and the function answers \<open>True\<close>.
\<close>

theorem check_new_edge_intersection_adjacent_edge:
  "check_new_edge_intersection [(0, 0), (20, 0)] (20, 20) = True"
  by (simp add: check_new_edge_intersection_def segments_intersect_def orientation_def
        on_segment_def Let_def)

subsection \<open>Sampling the arcs\<close>

lemma upt_1_5: "[Suc 0..<5] = [1, 2, 3, 4]"
  by (simp add: upt_rec)

lemma arc_points_length: "length (arc_points c r a1 a2) = 4"
  by (simp add: arc_points_def num_samples_def)

lemma arc_points_explicit:
  "arc_points c r a1 a2 =
     map (\<lambda>t. (fst c + r * cos (a1 + t * (a2 - a1)), snd c + r * sin (a1 + t * (a2 - a1))))
         [1 / 5, 2 / 5, 3 / 5, 4 / 5]"
  by (simp add: arc_points_def num_samples_def upt_1_5 Let_def algebra_simps)

lemma arc_span_length: "length (arc_span edges centers r i) = 5"
  by (simp add: arc_span_def arc_points_length Let_def)

lemma approximate_arcs_length:
  "length (approximate_arcs edges centers r) = 5 * length edges"
  by (simp add: approximate_arcs_def length_concat comp_def arc_span_length sum_list_triv)

lemma generalized_lengths:
  "expand_polygon_generalized self vs = (edges, centers, r) \<Longrightarrow> length centers = length edges"
  by (auto simp add: expand_polygon_generalized_def Let_def)

lemma expand_obstacle_uniform_form:
  assumes "fst (expand_obstacle_uniform CH self ob (Some m) f) = Inr (Some b)"
  shows "(m = METHOD_GENERALIZED \<longrightarrow>
            (\<exists>edges centers r. b = Arcs edges centers r \<and> length centers = length edges))
       \<and> (m \<noteq> METHOD_GENERALIZED \<longrightarrow> (\<exists>vs. b = Polygon vs))"
  using assms
  by (auto simp add: expand_obstacle_uniform_def Let_def METHOD_GENERALIZED_def
        METHOD_CONVEX_def METHOD_PRESERVE_SHAPE_def
      dest: generalized_lengths split: sum.splits prod.splits if_splits)

lemma directional_result_form:
  "(get_or (ob_expansion_method ob) METHOD_GENERALIZED = METHOD_GENERALIZED \<longrightarrow>
      (\<exists>edges centers r. directional_result ob vs n s e w = Arcs edges centers r
                          \<and> length centers = length edges))
   \<and> (get_or (ob_expansion_method ob) METHOD_GENERALIZED \<noteq> METHOD_GENERALIZED \<longrightarrow>
      (\<exists>ps. directional_result ob vs n s e w = Polygon ps))"
  by (simp add: directional_result_def cyclic_edges_def Let_def)

lemma expand_rectangle_directional_form:
  assumes "expand_rectangle_directional ob = Inr (Some b)"
  shows "(get_or (ob_expansion_method ob) METHOD_GENERALIZED = METHOD_GENERALIZED \<longrightarrow>
            (\<exists>edges centers r. b = Arcs edges centers r \<and> length centers = length edges))
       \<and> (get_or (ob_expansion_method ob) METHOD_GENERALIZED \<noteq> METHOD_GENERALIZED \<longrightarrow>
            (\<exists>ps. b = Polygon ps))"
  using assms directional_result_form[of ob]
  by (auto simp add: expand_rectangle_directional_def Let_def
      split: sum.splits prod.splits if_splits)

lemma expand_polygon_directional_form:
  assumes "expand_polygon_directional ob = Inr (Some b)"
  shows "(get_or (ob_expansion_method ob) METHOD_GENERALIZED = METHOD_GENERALIZED \<longrightarrow>
            (\<exists>edges centers r. b = Arcs edges centers r \<and> length centers = length edges))
       \<and> (get_or (ob_expansion_method ob) METHOD_GENERALIZED \<noteq> METHOD_GENERALIZED \<longrightarrow>
            (\<exists>ps. b = Polygon ps))"
  using assms directional_result_form[of ob]
  by (auto simp add: expand_polygon_directional_def Let_def
      split: sum.splits prod.splits if_splits)

text \<open>Called with the obstacle's own method, \<open>expand_obstacle\<close> returns the triple exactly
  under the generalized method, and then with as many centres as edges.\<close>

lemma expand_obstacle_form:
  assumes "fst (expand_obstacle CH self ob
                  (Some (get_or (ob_expansion_method ob) METHOD_GENERALIZED)) f) = Inr (Some b)"
  shows "(get_or (ob_expansion_method ob) METHOD_GENERALIZED = METHOD_GENERALIZED \<longrightarrow>
            (\<exists>edges centers r. b = Arcs edges centers r \<and> length centers = length edges))
       \<and> (get_or (ob_expansion_method ob) METHOD_GENERALIZED \<noteq> METHOD_GENERALIZED \<longrightarrow>
            (\<exists>ps. b = Polygon ps))"
proof -
  let ?m = "get_or (ob_expansion_method ob) METHOD_GENERALIZED"
  have "expand_obstacle CH self ob (Some ?m) f = (expand_rectangle_directional ob, self)
      \<or> expand_obstacle CH self ob (Some ?m) f = (expand_polygon_directional ob, self)
      \<or> expand_obstacle CH self ob (Some ?m) f = expand_obstacle_uniform CH self ob (Some ?m) f"
    by (simp add: expand_obstacle_def Let_def)
  then consider
      (rect) "expand_obstacle CH self ob (Some ?m) f = (expand_rectangle_directional ob, self)"
    | (poly) "expand_obstacle CH self ob (Some ?m) f = (expand_polygon_directional ob, self)"
    | (uni) "expand_obstacle CH self ob (Some ?m) f
               = expand_obstacle_uniform CH self ob (Some ?m) f"
    by blast
  then show ?thesis
  proof cases
    case rect
    with assms have "expand_rectangle_directional ob = Inr (Some b)" by simp
    then show ?thesis by (rule expand_rectangle_directional_form)
  next
    case poly
    with assms have "expand_polygon_directional ob = Inr (Some b)" by simp
    then show ?thesis by (rule expand_polygon_directional_form)
  next
    case uni
    with assms have "fst (expand_obstacle_uniform CH self ob (Some ?m) f) = Inr (Some b)"
      by simp
    then show ?thesis by (rule expand_obstacle_uniform_form)
  qed
qed

lemma get_expanded_vertices_arcs:
  assumes "0 < get_or (ob_expansion_distance ob) 0"
    and "fst (expand_obstacle CH
                \<lparr>d_exp = get_or (ob_expansion_distance ob) 0, force_convex_hull = False\<rparr> ob
                (Some (get_or (ob_expansion_method ob) METHOD_GENERALIZED)) None)
           = Inr (Some (Arcs edges centers r))"
  shows "get_or (ob_expansion_method ob) METHOD_GENERALIZED = METHOD_GENERALIZED
       \<and> get_expanded_vertices CH ob = Some (approximate_arcs edges centers r)"
proof -
  from expand_obstacle_form[OF assms(2)]
  have m: "get_or (ob_expansion_method ob) METHOD_GENERALIZED = METHOD_GENERALIZED"
    and l: "length centers = length edges"
    by auto
  from l have "\<not> (edges \<noteq> [] \<and> centers = [])" by auto
  with assms m show ?thesis
    by (simp add: get_expanded_vertices_def Let_def)
qed

lemma get_expanded_vertices_polygon:
  assumes "0 < get_or (ob_expansion_distance ob) 0"
    and "fst (expand_obstacle CH
                \<lparr>d_exp = get_or (ob_expansion_distance ob) 0, force_convex_hull = False\<rparr> ob
                (Some (get_or (ob_expansion_method ob) METHOD_GENERALIZED)) None)
           = Inr (Some (Polygon vs))"
  shows "get_or (ob_expansion_method ob) METHOD_GENERALIZED \<noteq> METHOD_GENERALIZED
       \<and> get_expanded_vertices CH ob = (if vs = [] then None else Some vs)"
proof -
  from expand_obstacle_form[OF assms(2)]
  have m: "get_or (ob_expansion_method ob) METHOD_GENERALIZED \<noteq> METHOD_GENERALIZED"
    by auto
  with assms show ?thesis
    by (simp add: get_expanded_vertices_def Let_def)
qed

lemma square100_expanded:
  "fst (expand_obstacle CH
          \<lparr>d_exp = get_or (ob_expansion_distance (square100 METHOD_GENERALIZED)) 0,
           force_convex_hull = False\<rparr>
          (square100 METHOD_GENERALIZED)
          (Some (get_or (ob_expansion_method (square100 METHOD_GENERALIZED)) METHOD_GENERALIZED))
          None)
    = Inr (Some (Arcs [((0, -10), (100, -10)), ((110, 0), (110, 100)),
                       ((100, 110), (0, 110)), ((-10, 100), (-10, 0))]
                      [(0, 0), (100, 0), (100, 100), (0, 100)] 10))"
  apply (simp add: expand_obstacle_def square100_not_directional Let_def)
  apply (simp add: expand_obstacle_uniform_def square100_vertices Let_def)
  apply (simp add: square100_def new_obstacle_def get_or_def METHOD_GENERALIZED_def
           METHOD_CONVEX_def METHOD_PRESERVE_SHAPE_def generalized_square)
  done

lemma square100_distance: "get_or (ob_expansion_distance (square100 m)) 0 = 10"
  by (simp add: square100_def new_obstacle_def get_or_def)

lemma atan2_west: "atan2 0 (-10) = pi"
  by (simp add: atan2_def)

lemma atan2_north: "atan2 (-10) 0 = - pi / 2"
  by (simp add: atan2_def)

text \<open>The last pass of the loop for the expanded square: the arc about the corner (0,0)
  from the end (-10,0) of the last edge to the start (0,-10) of the first. The two angles
  are \<open>pi\<close> and \<open>-pi/2\<close>, and the interpolation runs between them through 0.\<close>

lemma square_span3:
  "arc_span [((0, -10), (100, -10)), ((110, 0), (110, 100)),
             ((100, 110), (0, 110)), ((-10, 100), (-10, 0))]
            [(0, 0), (100, 0), (100, 100), (0, 100)] 10 3
     = [(-10, 100),
        (10 * cos (7 * pi / 10), 10 * sin (7 * pi / 10)),
        (10 * cos (2 * pi / 5), 10 * sin (2 * pi / 5)),
        (10 * cos (pi / 10), 10 * sin (pi / 10)),
        (10 * cos (- pi / 5), 10 * sin (- pi / 5))]"
proof -
  have a: "pi + 1 / 5 * (- pi / 2 - pi) = 7 * pi / 10" by (simp add: field_simps)
  have b: "pi + 2 / 5 * (- pi / 2 - pi) = 2 * pi / 5" by (simp add: field_simps)
  have c: "pi + 3 / 5 * (- pi / 2 - pi) = pi / 10" by (simp add: field_simps)
  have d: "pi + 4 / 5 * (- pi / 2 - pi) = - pi / 5" by (simp add: field_simps)
  have "arc_span [((0, -10), (100, -10)), ((110, 0), (110, 100)),
             ((100, 110), (0, 110)), ((-10, 100), (-10, 0))]
            [(0, 0), (100, 0), (100, 100), (0, 100)] 10 3
        = (-10, 100) # arc_points (0, 0) 10 pi (- pi / 2)"
    by (simp add: arc_span_def Let_def atan2_west atan2_north)
  then show ?thesis
    by (simp only: arc_points_explicit list.map fst_conv snd_conv a b c d add_0)
qed

lemma arc_span_in_polygon:
  "i < length edges
     \<Longrightarrow> set (arc_span edges centers r i) \<subseteq> set (approximate_arcs edges centers r)"
  by (auto simp add: approximate_arcs_def)

lemma sample_inside_square:
  "0 < 10 * cos (pi / 10) \<and> 10 * cos (pi / 10) < 100
   \<and> 0 < 10 * sin (pi / 10) \<and> 10 * sin (pi / 10) < 100"
proof -
  have p: "0 < pi" by simp
  have c: "0 < cos (pi / 10)" by (rule cos_gt_zero_pi) (use p in simp_all)
  have s: "0 < sin (pi / 10)" by (rule sin_gt_zero) (use p in simp_all)
  from c s cos_le_one[of "pi / 10"] sin_le_one[of "pi / 10"] show ?thesis by linarith
qed

text \<open>
  C7 (evaluation at the failing input). For the square of side 100 with expansion
  distance 10 and the generalized method, \<open>get_expanded_vertices\<close> returns 20 vertices:
  every arc span contributes the start of its edge and four interpolated points, not
  five. On the span about the corner (0,0) the angles are interpolated from \<open>pi\<close> down to
  \<open>-pi/2\<close>, three quarters of a turn through the obstacle instead of the quarter turn
  outside it, so the returned polygon has the vertex (10 cos(pi/10), 10 sin(pi/10)),
  which lies strictly inside the square itself.
\<close>

theorem get_expanded_vertices_square_inside:
  "get_expanded_vertices (\<lambda>vs. None) (square100 METHOD_GENERALIZED)
     = Some (approximate_arcs [((0, -10), (100, -10)), ((110, 0), (110, 100)),
                               ((100, 110), (0, 110)), ((-10, 100), (-10, 0))]
                              [(0, 0), (100, 0), (100, 100), (0, 100)] 10)
   \<and> length (approximate_arcs [((0, -10), (100, -10)), ((110, 0), (110, 100)),
                                ((100, 110), (0, 110)), ((-10, 100), (-10, 0))]
                               [(0, 0), (100, 0), (100, 100), (0, 100)] 10) = 20
   \<and> arc_span [((0, -10), (100, -10)), ((110, 0), (110, 100)),
                ((100, 110), (0, 110)), ((-10, 100), (-10, 0))]
               [(0, 0), (100, 0), (100, 100), (0, 100)] 10 3
       = [(-10, 100),
          (10 * cos (7 * pi / 10), 10 * sin (7 * pi / 10)),
          (10 * cos (2 * pi / 5), 10 * sin (2 * pi / 5)),
          (10 * cos (pi / 10), 10 * sin (pi / 10)),
          (10 * cos (- pi / 5), 10 * sin (- pi / 5))]
   \<and> (10 * cos (pi / 10), 10 * sin (pi / 10))
       \<in> set (approximate_arcs [((0, -10), (100, -10)), ((110, 0), (110, 100)),
                                 ((100, 110), (0, 110)), ((-10, 100), (-10, 0))]
                                [(0, 0), (100, 0), (100, 100), (0, 100)] 10)
   \<and> 0 < 10 * cos (pi / 10) \<and> 10 * cos (pi / 10) < 100
   \<and> 0 < 10 * sin (pi / 10) \<and> 10 * sin (pi / 10) < 100"
proof -
  let ?E = "[((0, -10), (100, -10)), ((110, 0), (110, 100)),
             ((100, 110), (0, 110)), ((-10, 100), (-10, 0 :: real))] :: (point \<times> point) list"
  let ?C = "[(0, 0), (100, 0), (100, 100), (0, 100)] :: point list"
  have d: "0 < get_or (ob_expansion_distance (square100 METHOD_GENERALIZED)) 0"
    by (simp add: square100_distance)
  note result = get_expanded_vertices_arcs
    [OF d square100_expanded, of "\<lambda>vs. None", THEN conjunct2]
  have len: "length (approximate_arcs ?E ?C 10) = 20"
    by (simp add: approximate_arcs_length)
  have "(10 * cos (pi / 10), 10 * sin (pi / 10)) \<in> set (arc_span ?E ?C 10 3)"
    by (simp only: square_span3) simp
  moreover have "set (arc_span ?E ?C 10 3) \<subseteq> set (approximate_arcs ?E ?C 10)"
    by (rule arc_span_in_polygon) simp
  ultimately have mem: "(10 * cos (pi / 10), 10 * sin (pi / 10))
                          \<in> set (approximate_arcs ?E ?C 10)"
    by (rule rev_subsetD)
  from result len square_span3 mem sample_inside_square show ?thesis
    by (intro conjI) (simp_all only: simp_thms)
qed

subsection \<open>Two squares of side 50\<close>

lemma cyclic_edges4: "cyclic_edges [a, b, c, d] = [(a, b), (b, c), (c, d), (d, a)]"
  by (simp add: cyclic_edges_def Let_def)

lemma square50_vertices:
  "get_obstacle_vertices (square50 x y)
     = Inr [(x, y), (50 + x, y), (50 + x, 50 + y), (x, 50 + y)]"
  by (simp add: square50_def get_obstacle_vertices_def new_obstacle_def get_or_def
        placement_def rectangle_vertices_def Let_def)

lemma square50_distance: "get_or (ob_expansion_distance (square50 x y)) 0 = 0"
  by (simp add: square50_def new_obstacle_def get_or_def)

text \<open>Neither square has an expansion, so only the test of the raw shapes decides.\<close>

lemma overlaps_existing_square50:
  "overlaps_existing CH self (square50 x1 y1) (square50 x2 y2)
     = Inr (check_polygon_overlap
              [(x1, y1), (50 + x1, y1), (50 + x1, 50 + y1), (x1, 50 + y1)]
              [(x2, y2), (50 + x2, y2), (50 + x2, 50 + y2), (x2, 50 + y2)] (min_spacing self))"
  by (simp add: overlaps_existing_def square50_vertices square50_distance Let_def)

lemma check_overlap_square50:
  "check_overlap CH self (square50 x1 y1) [(r, square50 x2 y2)] None
     = Inr (check_polygon_overlap
              [(x1, y1), (50 + x1, y1), (50 + x1, 50 + y1), (x1, 50 + y1)]
              [(x2, y2), (50 + x2, y2), (50 + x2, 50 + y2), (x2, 50 + y2)] (min_spacing self))"
  by (simp add: overlaps_existing_square50 split: bool.splits)

lemmas polygon_test_defs =
  check_polygon_overlap_def boundingRect_def adjust_def addRect_def intersects_def
  cyclic_edges4 segments_meet_def cross_def within_box_def inside_def ray_crosses_def Let_def

text \<open>
  C1. Two axis-aligned squares of side 50 without expansion, anywhere on the canvas, with
  the detector's default spacing 5: when the facing edges are 3 apart (the second square
  to the right of, to the left of, below or above the first), \<open>check_overlap\<close> returns
  true; when they are 6 apart it returns false. The Qt intersection test is the model
  described with \<open>intersects\<close>.
\<close>

theorem check_overlap_squares_gap:
  "check_overlap CH \<lparr>min_spacing = 5\<rparr> (square50 x y) [(r, square50 (x + 53) y)] None = Inr True
   \<and> check_overlap CH \<lparr>min_spacing = 5\<rparr> (square50 (x + 53) y) [(r, square50 x y)] None = Inr True
   \<and> check_overlap CH \<lparr>min_spacing = 5\<rparr> (square50 x y) [(r, square50 x (y + 53))] None = Inr True
   \<and> check_overlap CH \<lparr>min_spacing = 5\<rparr> (square50 x (y + 53)) [(r, square50 x y)] None = Inr True
   \<and> check_overlap CH \<lparr>min_spacing = 5\<rparr> (square50 x y) [(r, square50 (x + 56) y)] None = Inr False
   \<and> check_overlap CH \<lparr>min_spacing = 5\<rparr> (square50 (x + 56) y) [(r, square50 x y)] None = Inr False
   \<and> check_overlap CH \<lparr>min_spacing = 5\<rparr> (square50 x y) [(r, square50 x (y + 56))] None = Inr False
   \<and> check_overlap CH \<lparr>min_spacing = 5\<rparr> (square50 x (y + 56)) [(r, square50 x y)] None = Inr False"
proof -
  have a: "check_overlap CH \<lparr>min_spacing = 5\<rparr> (square50 x y) [(r, square50 (x + 53) y)] None
             = Inr True"
    unfolding check_overlap_square50 by (simp add: polygon_test_defs)
  have b: "check_overlap CH \<lparr>min_spacing = 5\<rparr> (square50 (x + 53) y) [(r, square50 x y)] None
             = Inr True"
    unfolding check_overlap_square50 by (simp add: polygon_test_defs)
  have c: "check_overlap CH \<lparr>min_spacing = 5\<rparr> (square50 x y) [(r, square50 x (y + 53))] None
             = Inr True"
    unfolding check_overlap_square50 by (simp add: polygon_test_defs)
  have d: "check_overlap CH \<lparr>min_spacing = 5\<rparr> (square50 x (y + 53)) [(r, square50 x y)] None
             = Inr True"
    unfolding check_overlap_square50 by (simp add: polygon_test_defs)
  have e: "check_overlap CH \<lparr>min_spacing = 5\<rparr> (square50 x y) [(r, square50 (x + 56) y)] None
             = Inr False"
    unfolding check_overlap_square50 by (simp add: polygon_test_defs)
  have f: "check_overlap CH \<lparr>min_spacing = 5\<rparr> (square50 (x + 56) y) [(r, square50 x y)] None
             = Inr False"
    unfolding check_overlap_square50 by (simp add: polygon_test_defs)
  have g: "check_overlap CH \<lparr>min_spacing = 5\<rparr> (square50 x y) [(r, square50 x (y + 56))] None
             = Inr False"
    unfolding check_overlap_square50 by (simp add: polygon_test_defs)
  have h: "check_overlap CH \<lparr>min_spacing = 5\<rparr> (square50 x (y + 56)) [(r, square50 x y)] None
             = Inr False"
    unfolding check_overlap_square50 by (simp add: polygon_test_defs)
  from a b c d e f g h show ?thesis by simp
qed

end
